theory Spec2Isabelle
  imports Complex_Main "HOL-Library.Multiset"
begin

section \<open>Numbers and JavaScript values\<close>

text \<open>
  The portfolio rebalancer is a React component (\<^verbatim>\<open>App\<close>); its state is the asset list,
  the selected currency and the cached total value. JavaScript numbers are modelled as exact
  reals: rounding, overflow and the infinities of IEEE doubles are outside this model.
  A property the source reads through \<^verbatim>\<open>x || 0\<close> may be missing, \<^verbatim>\<open>null\<close> or
  \<^verbatim>\<open>NaN\<close>; such a property is a \<open>real option\<close>, where \<open>None\<close> stands for
  every value of that kind.
\<close>

definition truthy :: "real option \<Rightarrow> bool" where
  "truthy x = (case x of None \<Rightarrow> False | Some v \<Rightarrow> v \<noteq> 0)"

text \<open>\<^verbatim>\<open>x || y\<close> on two possibly missing numbers.\<close>

definition js_or :: "real option \<Rightarrow> real option \<Rightarrow> real option" where
  "js_or x y = (if truthy x then x else y)"

text \<open>\<^verbatim>\<open>x || 0\<close>.\<close>

definition or_zero :: "real option \<Rightarrow> real" where
  "or_zero x = (case x of None \<Rightarrow> 0 | Some v \<Rightarrow> if v \<noteq> 0 then v else 0)"

text \<open>
  A quotient whose divisor is zero is \<^verbatim>\<open>NaN\<close> or an infinity in JavaScript, not an
  exception. It has no value among the exact reals, so the model reports it as an error
  value; every function that divides by a variable returns a sum type.
  \<open>ReferenceError\<close> is the exception the language raises when a \<^verbatim>\<open>const\<close> binding is
  read before its declaration has run.
\<close>

datatype error = DivisionByZero | ReferenceError

definition js_div :: "real \<Rightarrow> real \<Rightarrow> error + real" where
  "js_div a b = (if b = 0 then Inl DivisionByZero else Inr (a / b))"

text \<open>\<^verbatim>\<open>Math.round\<close>: the nearest integer, a tie going up.\<close>

definition math_round :: "real \<Rightarrow> int" where
  "math_round x = \<lfloor>x + 1 / 2\<rfloor>"

section \<open>The data model\<close>

record asset =
  asset_id :: string
  symbol :: string
  name :: string
  thumb :: string
  holdings :: real
  targetPercent :: "real option"
  buyPrice :: "real option"
  category :: "string option"
  priceEur :: "real option"
  priceUsd :: "real option"
  change24h :: "real option"

text \<open>A search result of the price source, as \<^verbatim>\<open>addAsset\<close> reads it.\<close>

record coin =
  coin_id :: string
  coin_symbol :: string
  coin_name :: string
  coin_thumb :: string

text \<open>
  The answer of the batch price lookup: an object keyed by asset id. \<^verbatim>\<open>data[id]?.eur\<close>
  is \<open>None\<close> when the id is absent or the entry has no such number.
\<close>

record quote =
  eur :: "real option"
  usd :: "real option"
  eur_24h_change :: "real option"

type_synonym response = "string \<rightharpoonup> quote"

definition quote_field :: "response \<Rightarrow> string \<Rightarrow> (quote \<Rightarrow> real option) \<Rightarrow> real option" where
  "quote_field data i f = (case data i of None \<Rightarrow> None | Some q \<Rightarrow> f q)"

section \<open>Valuation\<close>

text \<open>\<^verbatim>\<open>currency === 'eur' ? asset.priceEur : asset.priceUsd\<close>\<close>

definition price_in :: "string \<Rightarrow> asset \<Rightarrow> real option" where
  "price_in currency a = (if currency = ''eur'' then priceEur a else priceUsd a)"

definition getAssetValue :: "string \<Rightarrow> asset \<Rightarrow> real" where
  "getAssetValue currency a = holdings a * or_zero (price_in currency a)"

text \<open>
  The effect that recomputes the \<^verbatim>\<open>totalValue\<close> state from the assets and the currency.
  \<^verbatim>\<open>reduce\<close> is a left fold.
\<close>

definition totalValue :: "string \<Rightarrow> asset list \<Rightarrow> real" where
  "totalValue currency assets =
     foldl (\<lambda>sum a. sum + holdings a * or_zero (price_in currency a)) 0 assets"

text \<open>
  The functions below close over the \<^verbatim>\<open>totalValue\<close> state; the model passes it as the
  argument \<open>tot\<close>.
\<close>

definition getCurrentPercent :: "string \<Rightarrow> real \<Rightarrow> asset \<Rightarrow> error + real" where
  "getCurrentPercent currency tot a =
     (if tot = 0 then Inr 0
      else map_sum (\<lambda>e. e) (\<lambda>q. q * 100) (js_div (getAssetValue currency a) tot))"

definition totalPnL :: "string \<Rightarrow> asset list \<Rightarrow> real" where
  "totalPnL currency assets =
     foldl (\<lambda>sum a.
        let currentValue = holdings a * or_zero (price_in currency a);
            costBasis = holdings a * or_zero (buyPrice a)
        in sum + (currentValue - costBasis)) 0 assets"

definition totalCostBasis :: "asset list \<Rightarrow> real" where
  "totalCostBasis assets = foldl (\<lambda>sum a. sum + holdings a * or_zero (buyPrice a)) 0 assets"

definition pnlPercent :: "string \<Rightarrow> asset list \<Rightarrow> error + real" where
  "pnlPercent currency assets =
     (if totalCostBasis assets > 0
      then map_sum (\<lambda>e. e) (\<lambda>q. q * 100) (js_div (totalPnL currency assets) (totalCostBasis assets))
      else Inr 0)"

definition totalTargetPercent :: "asset list \<Rightarrow> real" where
  "totalTargetPercent assets = foldl (\<lambda>sum a. sum + or_zero (targetPercent a)) 0 assets"

section \<open>Sorting\<close>

text \<open>
  \<^verbatim>\<open>Array.prototype.sort\<close> is a builtin of the language. ECMAScript (since the 2019
  edition) requires it to be stable and to order by the comparator: an element stays before
  another unless the comparator of the two is positive. The model is the insertion sort
  with these two properties.
\<close>

fun insert_cmp :: "('a \<Rightarrow> 'a \<Rightarrow> real) \<Rightarrow> 'a \<Rightarrow> 'a list \<Rightarrow> 'a list" where
  "insert_cmp cmp x [] = [x]"
| "insert_cmp cmp x (y # ys) =
     (if cmp x y \<le> 0 then x # y # ys else y # insert_cmp cmp x ys)"

definition array_sort :: "('a \<Rightarrow> 'a \<Rightarrow> real) \<Rightarrow> 'a list \<Rightarrow> 'a list" where
  "array_sort cmp xs = foldr (insert_cmp cmp) xs []"

definition sortedAssets :: "string \<Rightarrow> asset list \<Rightarrow> asset list" where
  "sortedAssets currency assets =
     array_sort (\<lambda>a b.
        let priceA = price_in currency a; priceB = price_in currency b
        in holdings b * or_zero priceB - holdings a * or_zero priceA) assets"

section \<open>Rebalance planner and health score\<close>

record rebalance =
  action :: string
  amount :: real
  units :: real

definition getRebalanceAction :: "string \<Rightarrow> real \<Rightarrow> asset \<Rightarrow> error + rebalance option" where
  "getRebalanceAction currency tot a =
     (let currentValue = getAssetValue currency a;
          targetValue = (or_zero (targetPercent a) / 100) * tot;
          difference = targetValue - currentValue;
          price = price_in currency a
      in if \<bar>difference\<bar> < 1 then Inr None
         else
           case (case price of
                   None \<Rightarrow> Inr 0
                 | Some p \<Rightarrow> if p > 0 then map_sum (\<lambda>e. e) abs (js_div difference p) else Inr 0) of
             Inl e \<Rightarrow> Inl e
           | Inr u \<Rightarrow>
               Inr (Some \<lparr>action = (if difference > 0 then ''BUY'' else ''SELL''),
                          amount = \<bar>difference\<bar>, units = u\<rparr>))"

text \<open>
  \<^verbatim>\<open>calculateHealthScore\<close> reads the binding \<^verbatim>\<open>getAssetValue\<close> of the component. The
  binding is a \<^verbatim>\<open>const\<close> declared further down in the component body, so what the read
  gives depends on when the function is called: \<open>None\<close> is the binding before its
  declaration has run, \<open>Some f\<close> the binding once it holds the function \<open>f\<close>.

  One step of the \<^verbatim>\<open>reduce\<close>:
\<close>

definition deviation_step ::
  "(asset \<Rightarrow> real) option \<Rightarrow> real \<Rightarrow> error + real \<Rightarrow> asset \<Rightarrow> error + real" where
  "deviation_step binding tot acc a =
     (case acc of
        Inl e \<Rightarrow> Inl e
      | Inr s \<Rightarrow>
          (case binding of
             None \<Rightarrow> Inl ReferenceError
           | Some getValue \<Rightarrow>
               (case js_div (getValue a) tot of
                  Inl e \<Rightarrow> Inl e
                | Inr q \<Rightarrow>
                    (let currentPercent = q * 100; target = or_zero (targetPercent a)
                     in Inr (s + \<bar>currentPercent - target\<bar>)))))"

definition calculateHealthScore ::
  "(asset \<Rightarrow> real) option \<Rightarrow> real \<Rightarrow> asset list \<Rightarrow> error + int" where
  "calculateHealthScore binding tot assets =
     (if length assets = 0 \<or> tot = 0 then Inr 100
      else
        case foldl (deviation_step binding tot) (Inr 0) assets of
          Inl e \<Rightarrow> Inl e
        | Inr totalDeviation \<Rightarrow>
            (let score = max 0 (100 - totalDeviation / 2) in Inr (math_round score)))"

text \<open>
  \<^verbatim>\<open>const healthScore = calculateHealthScore()\<close>: the only call of the function. The
  component body runs it before it reaches the declaration of \<^verbatim>\<open>getAssetValue\<close>.
\<close>

definition healthScore :: "real \<Rightarrow> asset list \<Rightarrow> error + int" where
  "healthScore tot assets = calculateHealthScore None tot assets"

section \<open>Operations on the asset list\<close>

text \<open>
  \<^verbatim>\<open>toUpperCase\<close> is a builtin of the language and a parameter of the model.
\<close>

definition addAsset :: "(string \<Rightarrow> string) \<Rightarrow> coin \<Rightarrow> asset list \<Rightarrow> asset list" where
  "addAsset toUpperCase c assets =
     (if find (\<lambda>a. asset_id a = coin_id c) assets \<noteq> None then assets
      else assets @
        [\<lparr>asset_id = coin_id c, symbol = toUpperCase (coin_symbol c), name = coin_name c,
          thumb = coin_thumb c, holdings = 0, targetPercent = Some 0, buyPrice = Some 0,
          category = None, priceEur = Some 0, priceUsd = Some 0, change24h = Some 0\<rparr>])"

text \<open>
  The update that \<^verbatim>\<open>addAsset\<close> schedules for the answer of its own price request;
  \<open>None\<close> is a request that failed (the \<^verbatim>\<open>catch\<close> branch changes nothing).
\<close>

definition addAsset_prices :: "string \<Rightarrow> response option \<Rightarrow> asset list \<Rightarrow> asset list" where
  "addAsset_prices cid result prev =
     (case result of
        None \<Rightarrow> prev
      | Some data \<Rightarrow>
          map (\<lambda>a. if asset_id a = cid
                    then a\<lparr>priceEur := Some (or_zero (quote_field data cid eur)),
                           priceUsd := Some (or_zero (quote_field data cid usd)),
                           change24h := Some (or_zero (quote_field data cid eur_24h_change))\<rparr>
                    else a) prev)"

text \<open>
  \<^verbatim>\<open>fetchPrices\<close>, the bulk refresh: the update applied to the list when the answer
  arrives; \<open>None\<close> is a request that failed, which leaves the list as it is (so does
  the early return on an empty list, where nothing is requested).
\<close>

definition fetchPrices :: "response option \<Rightarrow> asset list \<Rightarrow> asset list" where
  "fetchPrices result prev =
     (case result of
        None \<Rightarrow> prev
      | Some data \<Rightarrow>
          map (\<lambda>a. a\<lparr>priceEur := Some (or_zero (js_or (quote_field data (asset_id a) eur) (priceEur a))),
                     priceUsd := Some (or_zero (js_or (quote_field data (asset_id a) usd) (priceUsd a))),
                     change24h := Some (or_zero (quote_field data (asset_id a) eur_24h_change))\<rparr>) prev)"

definition removeAsset :: "string \<Rightarrow> asset list \<Rightarrow> asset list" where
  "removeAsset i assets = filter (\<lambda>a. asset_id a \<noteq> i) assets"

text \<open>
  \<^verbatim>\<open>parseFloat\<close> is a builtin of the language and a parameter of the model: it maps the
  text of an input element to the number it starts with, \<open>None\<close> being \<^verbatim>\<open>NaN\<close>.
  The four field names are the ones the component passes.
\<close>

datatype field = Holdings | BuyPrice | TargetPercent | Category

definition updateAsset ::
  "(string \<Rightarrow> real option) \<Rightarrow> string \<Rightarrow> field \<Rightarrow> string option \<Rightarrow> asset list \<Rightarrow> asset list" where
  "updateAsset parseFloat i fld v assets =
     map (\<lambda>a. if asset_id a = i
               then (let n = or_zero (case v of None \<Rightarrow> None | Some s \<Rightarrow> parseFloat s)
                     in case fld of
                          Category \<Rightarrow> a\<lparr>category := v\<rparr>
                        | Holdings \<Rightarrow> a\<lparr>holdings := n\<rparr>
                        | BuyPrice \<Rightarrow> a\<lparr>buyPrice := Some n\<rparr>
                        | TargetPercent \<Rightarrow> a\<lparr>targetPercent := Some n\<rparr>)
               else a) assets"

text \<open>
  The operations of \<^verbatim>\<open>src/App.jsx\<close>, the earlier version of the component. Its assets
  have no cost basis, category or 24h change; \<^verbatim>\<open>removeAsset\<close> is the same function in both
  files.
\<close>

definition addAsset_App :: "(string \<Rightarrow> string) \<Rightarrow> coin \<Rightarrow> asset list \<Rightarrow> asset list" where
  "addAsset_App toUpperCase c assets =
     (if find (\<lambda>a. asset_id a = coin_id c) assets \<noteq> None then assets
      else assets @
        [\<lparr>asset_id = coin_id c, symbol = toUpperCase (coin_symbol c), name = coin_name c,
          thumb = coin_thumb c, holdings = 0, targetPercent = Some 0, buyPrice = None,
          category = None, priceEur = Some 0, priceUsd = Some 0, change24h = None\<rparr>])"

definition addAsset_prices_App :: "string \<Rightarrow> response option \<Rightarrow> asset list \<Rightarrow> asset list" where
  "addAsset_prices_App cid result prev =
     (case result of
        None \<Rightarrow> prev
      | Some data \<Rightarrow>
          map (\<lambda>a. if asset_id a = cid
                    then a\<lparr>priceEur := Some (or_zero (quote_field data cid eur)),
                           priceUsd := Some (or_zero (quote_field data cid usd))\<rparr>
                    else a) prev)"

definition fetchPrices_App :: "response option \<Rightarrow> asset list \<Rightarrow> asset list" where
  "fetchPrices_App result prev =
     (case result of
        None \<Rightarrow> prev
      | Some data \<Rightarrow>
          map (\<lambda>a. a\<lparr>priceEur := Some (or_zero (js_or (quote_field data (asset_id a) eur) (priceEur a))),
                     priceUsd := Some (or_zero (js_or (quote_field data (asset_id a) usd) (priceUsd a)))\<rparr>) prev)"

definition updateHoldings ::
  "(string \<Rightarrow> real option) \<Rightarrow> string \<Rightarrow> string \<Rightarrow> asset list \<Rightarrow> asset list" where
  "updateHoldings parseFloat i v assets =
     map (\<lambda>a. if asset_id a = i then a\<lparr>holdings := or_zero (parseFloat v)\<rparr> else a) assets"

definition updateTarget ::
  "(string \<Rightarrow> real option) \<Rightarrow> string \<Rightarrow> string \<Rightarrow> asset list \<Rightarrow> asset list" where
  "updateTarget parseFloat i v assets =
     (let newValue = min 100 (max 0 (or_zero (parseFloat v)))
      in map (\<lambda>a. if asset_id a = i then a\<lparr>targetPercent := Some newValue\<rparr> else a) assets)"

section \<open>Predicates and examples used in the statements\<close>

text \<open>
  The sum of a list of results; it is an error as soon as one of them is. It states the
  sum of the current percentages without assuming that each of them is a number.
\<close>

fun sum_results :: "(error + real) list \<Rightarrow> error + real" where
  "sum_results [] = Inr 0"
| "sum_results (r # rs) =
     (case r of
        Inl e \<Rightarrow> Inl e
      | Inr x \<Rightarrow> (case sum_results rs of Inl e \<Rightarrow> Inl e | Inr s \<Rightarrow> Inr (x + s)))"

text \<open>An asset with its two prices and its 24h change blanked: what a price refresh must keep.\<close>

definition frame :: "asset \<Rightarrow> asset" where
  "frame a = a\<lparr>priceEur := None, priceUsd := None, change24h := None\<rparr>"

text \<open>
  The invariants of the data model: holdings, cost basis and prices are not negative and
  the target is between 0 and 100. A property that is missing reads as 0, as it does
  through \<^verbatim>\<open>x || 0\<close> in the source.
\<close>

definition asset_ok :: "asset \<Rightarrow> bool" where
  "asset_ok a =
     (0 \<le> holdings a \<and> 0 \<le> or_zero (buyPrice a) \<and> 0 \<le> or_zero (priceEur a)
      \<and> 0 \<le> or_zero (priceUsd a)
      \<and> 0 \<le> or_zero (targetPercent a) \<and> or_zero (targetPercent a) \<le> 100)"

text \<open>
  The number an update reads from the text of an input element: what \<^verbatim>\<open>parseFloat\<close>
  gives, and 0 when that is \<^verbatim>\<open>NaN\<close>.
\<close>

definition number_read :: "real option \<Rightarrow> real" where
  "number_read x = (case x of None \<Rightarrow> 0 | Some n \<Rightarrow> n)"

text \<open>The numbers that \<^verbatim>\<open>updateAsset\<close> may store in a field without breaking the invariants.\<close>

definition input_ok :: "field \<Rightarrow> real \<Rightarrow> bool" where
  "input_ok fld n =
     (case fld of
        Category \<Rightarrow> True
      | TargetPercent \<Rightarrow> 0 \<le> n \<and> n \<le> 100
      | Holdings \<Rightarrow> 0 \<le> n
      | BuyPrice \<Rightarrow> 0 \<le> n)"

text \<open>A price answer none of whose prices is negative.\<close>

definition response_ok :: "response \<Rightarrow> bool" where
  "response_ok data =
     (\<forall>i q. data i = Some q \<longrightarrow> 0 \<le> or_zero (eur q) \<and> 0 \<le> or_zero (usd q))"

text \<open>
  \<^verbatim>\<open>parseFloat\<close> on the texts that are an optional minus sign followed by decimal
  digits only, for the examples: the theorems hold for every \<^verbatim>\<open>parseFloat\<close>, the examples
  need one. Other texts are not among the examples.
\<close>

definition digit_value :: "char \<Rightarrow> nat option" where
  "digit_value c =
     (let n = (of_char c :: nat) in if 48 \<le> n \<and> n \<le> 57 then Some (n - 48) else None)"

fun read_digits :: "nat \<Rightarrow> string \<Rightarrow> nat option" where
  "read_digits acc [] = Some acc"
| "read_digits acc (c # cs) =
     (case digit_value c of None \<Rightarrow> None | Some d \<Rightarrow> read_digits (10 * acc + d) cs)"

definition parseFloat_integer :: "string \<Rightarrow> real option" where
  "parseFloat_integer s =
     (case s of
        [] \<Rightarrow> None
      | c # cs \<Rightarrow>
          if c = CHR ''-''
          then (if cs = [] then None else map_option (\<lambda>n. - real n) (read_digits 0 cs))
          else map_option real (read_digits 0 s))"

text \<open>
  \<^verbatim>\<open>toUpperCase\<close> on texts of ASCII characters, for the examples.
\<close>

definition toUpperCase_ascii :: "string \<Rightarrow> string" where
  "toUpperCase_ascii s =
     map (\<lambda>c. let n = (of_char c :: nat) in if 97 \<le> n \<and> n \<le> 122 then char_of (n - 32) else c) s"

text \<open>A search result, for the examples.\<close>

definition bitcoin :: coin where
  "bitcoin = \<lparr>coin_id = ''bitcoin'', coin_symbol = ''btc'', coin_name = ''Bitcoin'', coin_thumb = []\<rparr>"

text \<open>A quote without its prices of exactly 0.\<close>

definition drop_zero :: "quote \<Rightarrow> quote" where
  "drop_zero q =
     q\<lparr>eur := (if eur q = Some 0 then None else eur q),
       usd := (if usd q = Some 0 then None else usd q)\<rparr>"

text \<open>
  An asset with the given id, holdings, price (the same in both currencies), target and
  cost basis.
\<close>

definition sample :: "string \<Rightarrow> real \<Rightarrow> real \<Rightarrow> real \<Rightarrow> real \<Rightarrow> asset" where
  "sample i h p t b =
     \<lparr>asset_id = i, symbol = ''X'', name = ''x'', thumb = [], holdings = h,
      targetPercent = Some t, buyPrice = Some b, category = None,
      priceEur = Some p, priceUsd = Some p, change24h = Some 0\<rparr>"

section \<open>Folds as sums\<close>

lemma or_zero_Some [simp]: "or_zero (Some v) = v"
  by (simp add: or_zero_def)

lemma or_zero_None [simp]: "or_zero None = 0"
  by (simp add: or_zero_def)

lemma foldl_add_sum_list:
  "foldl (\<lambda>s a. s + f a) (z :: real) xs = z + sum_list (map f xs)"
  by (induction xs arbitrary: z) (simp_all add: add.assoc)

lemma totalValue_sum:
  "totalValue currency assets = sum_list (map (getAssetValue currency) assets)"
  unfolding totalValue_def getAssetValue_def by (simp add: foldl_add_sum_list)

lemma totalPnL_sum:
  "totalPnL currency assets =
     sum_list (map (\<lambda>a. getAssetValue currency a - holdings a * or_zero (buyPrice a)) assets)"
  unfolding totalPnL_def getAssetValue_def Let_def by (simp add: foldl_add_sum_list)

lemma totalCostBasis_sum:
  "totalCostBasis assets = sum_list (map (\<lambda>a. holdings a * or_zero (buyPrice a)) assets)"
  unfolding totalCostBasis_def by (simp add: foldl_add_sum_list)

lemma sum_results_Inr: "sum_results (map (\<lambda>a. Inr (f a)) xs) = Inr (sum_list (map f xs))"
  by (induction xs) simp_all

lemma sum_list_percent:
  "sum_list (map (\<lambda>a. f a / t * 100) xs) = sum_list (map f xs) / t * (100::real)"
  by (induction xs) (simp_all add: add_divide_distrib distrib_right)

lemma getCurrentPercent_nonzero:
  "tot \<noteq> 0 \<Longrightarrow> getCurrentPercent currency tot a = Inr (getAssetValue currency a / tot * 100)"
  by (simp add: getCurrentPercent_def js_div_def)

lemma sample_value [simp]: "getAssetValue currency (sample i h p t b) = h * p"
  by (simp add: getAssetValue_def price_in_def sample_def)

lemma sample_fields [simp]:
  "holdings (sample i h p t b) = h"
  "targetPercent (sample i h p t b) = Some t"
  "buyPrice (sample i h p t b) = Some b"
  "price_in currency (sample i h p t b) = Some p"
  "asset_id (sample i h p t b) = i"
  by (simp_all add: sample_def price_in_def)

section \<open>Valuation\<close>

text \<open>
  Claim C6. The value of an asset is its holdings times its price in the selected currency,
  a missing price counting as 0; the total value is the sum of the values of the assets;
  an asset with no holdings has value 0 and current percentage 0, whatever its price and
  whatever the total.
\<close>

theorem value_and_total:
  "getAssetValue currency a =
     holdings a * (case (if currency = ''eur'' then priceEur a else priceUsd a) of
                     None \<Rightarrow> 0 | Some p \<Rightarrow> p)
   \<and> totalValue currency assets = sum_list (map (getAssetValue currency) assets)
   \<and> (holdings a = 0 \<longrightarrow>
        getAssetValue currency a = 0 \<and> getCurrentPercent currency tot a = Inr 0)"
  by (simp add: totalValue_sum getAssetValue_def price_in_def getCurrentPercent_def js_div_def
      split: option.splits)

theorem value_and_total_witness:
  "holdings (sample ''idle'' 0 50 50 0) = 0
   \<and> getAssetValue ''eur'' (sample ''idle'' 0 50 50 0) = 0
   \<and> getCurrentPercent ''eur'' 100 (sample ''idle'' 0 50 50 0) = Inr 0
   \<and> totalValue ''eur'' [sample ''held'' 1 100 50 0, sample ''idle'' 0 50 50 0] = 100"
  using value_and_total [of "''eur''" "sample ''idle'' 0 50 50 0"
      "[sample ''held'' 1 100 50 0, sample ''idle'' 0 50 50 0]" 100]
  by simp

text \<open>
  Claim C2. \<^verbatim>\<open>getCurrentPercent\<close> always returns a number and never divides by zero:
  it returns 0 when the total value is 0, and value / total * 100 when the total is
  positive.
\<close>

theorem getCurrentPercent_total:
  "(\<exists>p. getCurrentPercent currency tot a = Inr p)
   \<and> (tot = 0 \<longrightarrow> getCurrentPercent currency tot a = Inr 0)
   \<and> (tot > 0 \<longrightarrow>
        getCurrentPercent currency tot a = Inr (getAssetValue currency a / tot * 100))"
  by (simp add: getCurrentPercent_def js_div_def)

theorem getCurrentPercent_total_witness:
  "totalValue ''eur'' [sample ''idle'' 0 50 50 0] = 0
   \<and> getCurrentPercent ''eur'' (totalValue ''eur'' [sample ''idle'' 0 50 50 0])
        (sample ''idle'' 0 50 50 0) = Inr 0
   \<and> totalValue ''eur'' [sample ''held'' 1 100 50 0, sample ''idle'' 0 50 50 0] > 0
   \<and> getCurrentPercent ''eur''
        (totalValue ''eur'' [sample ''held'' 1 100 50 0, sample ''idle'' 0 50 50 0])
        (sample ''held'' 1 100 50 0) = Inr 100"
  using getCurrentPercent_total [of "''eur''" 0 "sample ''idle'' 0 50 50 0"]
    getCurrentPercent_total [of "''eur''" 100 "sample ''held'' 1 100 50 0"]
  by (simp add: totalValue_sum)

text \<open>
  Claim C4. When the total value of the list is positive, the current percentages of its
  assets add up to exactly 100; when it is 0, every current percentage is 0.
\<close>

theorem percent_sum:
  "(totalValue currency assets > 0 \<longrightarrow>
      sum_results (map (getCurrentPercent currency (totalValue currency assets)) assets) = Inr 100)
   \<and> (totalValue currency assets = 0 \<longrightarrow>
      (\<forall>a \<in> set assets. getCurrentPercent currency (totalValue currency assets) a = Inr 0))"
proof (intro conjI impI)
  assume pos: "totalValue currency assets > 0"
  let ?t = "totalValue currency assets"
  have "map (getCurrentPercent currency ?t) assets
        = map (\<lambda>a. Inr (getAssetValue currency a / ?t * 100)) assets"
    using pos by (simp add: getCurrentPercent_nonzero)
  then have "sum_results (map (getCurrentPercent currency ?t) assets)
        = Inr (sum_list (map (\<lambda>a. getAssetValue currency a / ?t * 100) assets))"
    by (simp only: sum_results_Inr)
  also have "sum_list (map (\<lambda>a. getAssetValue currency a / ?t * 100) assets) = ?t / ?t * 100"
    by (simp only: sum_list_percent totalValue_sum)
  also have "?t / ?t * 100 = 100" using pos by simp
  finally show "sum_results (map (getCurrentPercent currency ?t) assets) = Inr 100" .
next
  assume "totalValue currency assets = 0"
  then show "\<forall>a \<in> set assets. getCurrentPercent currency (totalValue currency assets) a = Inr 0"
    by (simp add: getCurrentPercent_def)
qed

theorem percent_sum_witness:
  "totalValue ''eur'' [sample ''held'' 1 100 50 0, sample ''idle'' 0 50 50 0] > 0
   \<and> sum_results (map (getCurrentPercent ''eur''
          (totalValue ''eur'' [sample ''held'' 1 100 50 0, sample ''idle'' 0 50 50 0]))
        [sample ''held'' 1 100 50 0, sample ''idle'' 0 50 50 0]) = Inr 100
   \<and> totalValue ''eur'' [sample ''idle'' 0 50 50 0] = 0
   \<and> getCurrentPercent ''eur'' (totalValue ''eur'' [sample ''idle'' 0 50 50 0])
        (sample ''idle'' 0 50 50 0) = Inr 0"
proof -
  have pos: "totalValue ''eur'' [sample ''held'' 1 100 50 0, sample ''idle'' 0 50 50 0] > 0"
    by (simp add: totalValue_sum)
  have zero: "totalValue ''eur'' [sample ''idle'' 0 50 50 0] = 0"
    by (simp add: totalValue_sum)
  show ?thesis
    using pos zero
      percent_sum [of "''eur''" "[sample ''held'' 1 100 50 0, sample ''idle'' 0 50 50 0]"]
      percent_sum [of "''eur''" "[sample ''idle'' 0 50 50 0]"]
    by (simp del: sum_results.simps)
qed

text \<open>
  Claim C7. The total profit is the sum over the assets of value minus holdings times
  cost basis, the total cost basis is the sum of holdings times cost basis, and the profit
  percentage is total profit / total cost basis * 100 when the cost basis is positive and 0
  otherwise.
\<close>

theorem pnl_spec:
  "totalPnL currency assets =
     sum_list (map (\<lambda>a. getAssetValue currency a - holdings a * or_zero (buyPrice a)) assets)
   \<and> totalCostBasis assets = sum_list (map (\<lambda>a. holdings a * or_zero (buyPrice a)) assets)
   \<and> pnlPercent currency assets =
       Inr (if totalCostBasis assets > 0
            then totalPnL currency assets / totalCostBasis assets * 100 else 0)"
  by (simp add: totalPnL_sum totalCostBasis_sum pnlPercent_def js_div_def)

text \<open>Scenario D of the specification: cost basis 80, price 100, holdings 5.\<close>

theorem pnl_spec_witness:
  "totalPnL ''eur'' [sample ''d'' 5 100 0 80] = 100
   \<and> totalCostBasis [sample ''d'' 5 100 0 80] = 400
   \<and> pnlPercent ''eur'' [sample ''d'' 5 100 0 80] = Inr 25"
  using pnl_spec [of "''eur''" "[sample ''d'' 5 100 0 80]"]
  by simp

section \<open>Rebalance planner\<close>

text \<open>
  Claim C1. With difference = targetPercent / 100 * total - value, the planner returns no
  action exactly when |difference| < 1; otherwise it returns BUY when the difference is
  positive and SELL when it is negative, the amount |difference|, and the units
  |difference / price| when the price in the selected currency is positive and 0 when it is
  not. It never divides by zero. This holds for every total, so also for the total value of
  the list the asset is in.
\<close>

theorem getRebalanceAction_spec:
  "getRebalanceAction currency tot a =
     (let difference = or_zero (targetPercent a) / 100 * tot - getAssetValue currency a;
          price = or_zero (price_in currency a)
      in Inr (if \<bar>difference\<bar> < 1 then None
              else Some \<lparr>action = (if difference > 0 then ''BUY'' else ''SELL''),
                         amount = \<bar>difference\<bar>,
                         units = (if price > 0 then \<bar>difference / price\<bar> else 0)\<rparr>))"
  by (simp add: getRebalanceAction_def Let_def js_div_def split: option.splits)

text \<open>
  Scenarios A and B of the specification, and an asset whose price is still 0.
\<close>

theorem getRebalanceAction_spec_witness:
  "getRebalanceAction ''eur'' (totalValue ''eur'' [sample ''a'' 2 100 100 0])
     (sample ''a'' 2 100 100 0) = Inr None
   \<and> getRebalanceAction ''eur''
        (totalValue ''eur'' [sample ''held'' 1 100 50 0, sample ''idle'' 0 50 50 0])
        (sample ''held'' 1 100 50 0)
      = Inr (Some \<lparr>action = ''SELL'', amount = 50, units = 1 / 2\<rparr>)
   \<and> getRebalanceAction ''eur''
        (totalValue ''eur'' [sample ''held'' 1 100 50 0, sample ''idle'' 0 50 50 0])
        (sample ''idle'' 0 50 50 0)
      = Inr (Some \<lparr>action = ''BUY'', amount = 50, units = 1\<rparr>)
   \<and> getRebalanceAction ''eur'' 100 (sample ''new'' 0 0 50 0)
      = Inr (Some \<lparr>action = ''BUY'', amount = 50, units = 0\<rparr>)"
  by (simp add: getRebalanceAction_spec totalValue_sum)

section \<open>Health score\<close>

lemma foldl_deviation_step_Inl:
  "foldl (deviation_step binding tot) (Inl e) xs = Inl e"
  by (induction xs) (simp_all add: deviation_step_def)

lemma foldl_deviation_step:
  "tot \<noteq> 0 \<Longrightarrow>
   foldl (deviation_step (Some f) tot) (Inr s) xs =
     Inr (s + sum_list (map (\<lambda>a. \<bar>f a / tot * 100 - or_zero (targetPercent a)\<bar>) xs))"
  by (induction xs arbitrary: s) (simp_all add: deviation_step_def js_div_def Let_def add.assoc)

lemma foldl_deviation_step_uninitialised:
  "xs \<noteq> [] \<Longrightarrow> foldl (deviation_step None tot) (Inr s) xs = Inl ReferenceError"
  by (cases xs) (simp_all add: deviation_step_def foldl_deviation_step_Inl)

lemma math_round_round: "math_round x = round x"
  by (simp add: math_round_def round_def)

text \<open>
  Called once \<^verbatim>\<open>getAssetValue\<close> is initialised, the function would return what the
  specification says: 100 for an empty list or a total of 0, and otherwise
  max 0 (100 - totalDeviation / 2) rounded to the nearest integer.
\<close>

lemma calculateHealthScore_initialised:
  "calculateHealthScore (Some (getAssetValue currency)) tot assets =
     Inr (if assets = [] \<or> tot = 0 then 100
          else round (max 0 (100 -
                 sum_list (map (\<lambda>a. \<bar>getAssetValue currency a / tot * 100
                                       - or_zero (targetPercent a)\<bar>) assets) / 2)))"
  by (simp add: calculateHealthScore_def foldl_deviation_step math_round_round Let_def)

text \<open>
  Claim C3 fails on the code. The health score the component computes is 100 when the list
  is empty or the total value is 0, as claimed; for every other list the call does not
  return a score: it throws \<open>ReferenceError\<close>, because the component calls
  \<^verbatim>\<open>calculateHealthScore\<close> before the declaration of \<^verbatim>\<open>getAssetValue\<close> has run.
\<close>

theorem healthScore_throws:
  "healthScore tot assets = (if assets = [] \<or> tot = 0 then Inr 100 else Inl ReferenceError)"
  by (simp add: healthScore_def calculateHealthScore_def foldl_deviation_step_uninitialised)

text \<open>
  Scenario B of the specification, whose score would be 50, and scenario C (no assets).
\<close>

theorem healthScore_throws_witness:
  "healthScore 100 [sample ''held'' 1 100 50 0, sample ''idle'' 0 50 50 0] = Inl ReferenceError
   \<and> healthScore 0 [] = Inr 100
   \<and> calculateHealthScore (Some (getAssetValue ''eur'')) 100
        [sample ''held'' 1 100 50 0, sample ''idle'' 0 50 50 0] = Inr 50"
  by (simp add: healthScore_throws calculateHealthScore_initialised)

section \<open>The sorted listing\<close>

lemma insert_cmp_insort:
  "insert_cmp (\<lambda>a b. f a - f b) x ys = insort_key f x ys" for f :: "'a \<Rightarrow> real"
  by (induction ys) simp_all

lemma array_sort_sort_key:
  "array_sort (\<lambda>a b. f a - f b) xs = sort_key f xs" for f :: "'a \<Rightarrow> real"
  by (simp add: array_sort_def sort_key_def insert_cmp_insort[abs_def])

lemma sortedAssets_sort_key:
  "sortedAssets currency assets = sort_key (\<lambda>a. - getAssetValue currency a) assets"
proof -
  have "(\<lambda>a b. let priceA = price_in currency a; priceB = price_in currency b
               in holdings b * or_zero priceB - holdings a * or_zero priceA)
        = (\<lambda>a b. (- getAssetValue currency a) - (- getAssetValue currency b))"
    by (simp add: getAssetValue_def Let_def fun_eq_iff)
  then show ?thesis
    unfolding sortedAssets_def by (simp only: array_sort_sort_key)
qed

text \<open>
  Claim C8. The sorted listing is a permutation of the asset list, in descending order of
  value, and the sort is stable: for every value, the assets of that value appear in the
  listing in the order they have in the list.
\<close>

theorem sortedAssets_spec:
  "mset (sortedAssets currency assets) = mset assets
   \<and> sorted_wrt (\<lambda>a b. getAssetValue currency a \<ge> getAssetValue currency b)
        (sortedAssets currency assets)
   \<and> filter (\<lambda>a. getAssetValue currency a = v) (sortedAssets currency assets)
       = filter (\<lambda>a. getAssetValue currency a = v) assets"
proof (intro conjI)
  let ?f = "\<lambda>a. - getAssetValue currency a"
  show "mset (sortedAssets currency assets) = mset assets"
    by (simp add: sortedAssets_sort_key)
  have "sorted (map ?f (sort_key ?f assets))" by (rule sorted_sort_key)
  then show "sorted_wrt (\<lambda>a b. getAssetValue currency a \<ge> getAssetValue currency b)
        (sortedAssets currency assets)"
    by (simp add: sortedAssets_sort_key sorted_map)
  have "filter (\<lambda>a. ?f a = - v) (sort_key ?f assets) = filter (\<lambda>a. ?f a = - v) assets"
    by (rule sort_key_stable)
  then show "filter (\<lambda>a. getAssetValue currency a = v) (sortedAssets currency assets)
       = filter (\<lambda>a. getAssetValue currency a = v) assets"
    by (simp add: sortedAssets_sort_key)
qed

text \<open>Two assets of value 0 around one of value 100: the two keep their order.\<close>

theorem sortedAssets_spec_witness:
  "sortedAssets ''eur'' [sample ''idle'' 0 50 50 0, sample ''held'' 1 100 50 0, sample ''new'' 0 0 0 0]
     = [sample ''held'' 1 100 50 0, sample ''idle'' 0 50 50 0, sample ''new'' 0 0 0 0]
   \<and> filter (\<lambda>a. getAssetValue ''eur'' a = 0)
        (sortedAssets ''eur''
           [sample ''idle'' 0 50 50 0, sample ''held'' 1 100 50 0, sample ''new'' 0 0 0 0])
      = [sample ''idle'' 0 50 50 0, sample ''new'' 0 0 0 0]"
  using sortedAssets_spec [of "''eur''"
      "[sample ''idle'' 0 50 50 0, sample ''held'' 1 100 50 0, sample ''new'' 0 0 0 0]" 0]
  by (simp add: sortedAssets_def array_sort_def Let_def)

section \<open>Price refresh\<close>

text \<open>
  Claim C9. A bulk price refresh keeps the list as it is but for the two prices and the 24h
  change of each asset: same assets, same order, every other field unchanged. Each asset
  takes the prices the answer has under its id; an asset whose id is absent from the answer
  keeps the prices it had.
\<close>

theorem fetchPrices_frame:
  "map frame (fetchPrices (Some data) assets) = map frame assets
   \<and> map asset_id (fetchPrices (Some data) assets) = map asset_id assets
   \<and> (\<forall>i < length assets.
        data (asset_id (assets ! i)) = None \<longrightarrow>
          priceEur (fetchPrices (Some data) assets ! i) = Some (or_zero (priceEur (assets ! i)))
        \<and> priceUsd (fetchPrices (Some data) assets ! i) = Some (or_zero (priceUsd (assets ! i))))
   \<and> (\<forall>i < length assets. \<forall>q.
        data (asset_id (assets ! i)) = Some q \<longrightarrow>
          (truthy (eur q) \<longrightarrow> priceEur (fetchPrices (Some data) assets ! i) = eur q)
        \<and> (truthy (usd q) \<longrightarrow> priceUsd (fetchPrices (Some data) assets ! i) = usd q))"
  by (auto simp: fetchPrices_def frame_def quote_field_def js_or_def truthy_def
      split: option.splits)

text \<open>A partial answer: a price for the first asset, nothing for the second.\<close>

theorem fetchPrices_frame_witness:
  "(1::nat) < length [sample ''btc'' 1 100 50 80, sample ''eth'' 2 30 50 20]
   \<and> [''btc'' \<mapsto> \<lparr>eur = Some 90, usd = Some 99, eur_24h_change = Some (-1)\<rparr>]
        (asset_id ([sample ''btc'' 1 100 50 80, sample ''eth'' 2 30 50 20] ! 1)) = None
   \<and> priceEur (fetchPrices
        (Some [''btc'' \<mapsto> \<lparr>eur = Some 90, usd = Some 99, eur_24h_change = Some (-1)\<rparr>])
        [sample ''btc'' 1 100 50 80, sample ''eth'' 2 30 50 20] ! 1) = Some 30
   \<and> truthy (eur \<lparr>eur = Some 90, usd = Some 99, eur_24h_change = Some (-1)\<rparr>)
   \<and> priceEur (fetchPrices
        (Some [''btc'' \<mapsto> \<lparr>eur = Some 90, usd = Some 99, eur_24h_change = Some (-1)\<rparr>])
        [sample ''btc'' 1 100 50 80, sample ''eth'' 2 30 50 20] ! 0) = Some 90
   \<and> map holdings (fetchPrices
        (Some [''btc'' \<mapsto> \<lparr>eur = Some 90, usd = Some 99, eur_24h_change = Some (-1)\<rparr>])
        [sample ''btc'' 1 100 50 80, sample ''eth'' 2 30 50 20]) = [1, 2]"
proof -
  let ?data = "[''btc'' \<mapsto> \<lparr>eur = Some 90, usd = Some 99, eur_24h_change = Some (-1)\<rparr>]"
  let ?assets = "[sample ''btc'' 1 100 50 80, sample ''eth'' 2 30 50 20]"
  note inst = fetchPrices_frame [of ?data ?assets]
  have len: "(1::nat) < length ?assets" "(0::nat) < length ?assets" by simp_all
  have absent: "?data (asset_id (?assets ! 1)) = None" by simp
  have present: "?data (asset_id (?assets ! 0))
      = Some \<lparr>eur = Some 90, usd = Some 99, eur_24h_change = Some (-1)\<rparr>" by simp
  have tr: "truthy (eur \<lparr>eur = Some 90, usd = Some 99, eur_24h_change = Some (-1)\<rparr>)"
    by (simp add: truthy_def)
  have keep: "priceEur (fetchPrices (Some ?data) ?assets ! 1) = Some 30"
    using inst len(1) absent by (simp add: sample_def)
  have new: "priceEur (fetchPrices (Some ?data) ?assets ! 0) = Some 90"
    using inst len(2) present tr by (metis quote.select_convs(1))
  have "map holdings (map frame (fetchPrices (Some ?data) ?assets)) = map holdings (map frame ?assets)"
    using inst by simp
  then have hold: "map holdings (fetchPrices (Some ?data) ?assets) = [1, 2]"
    by (simp add: frame_def fetchPrices_def)
  show ?thesis using len(1) absent keep tr new hold by blast
qed

lemma quote_field_drop_zero:
  "js_or (quote_field (\<lambda>i. map_option drop_zero (data i)) j eur) x = js_or (quote_field data j eur) x"
  "js_or (quote_field (\<lambda>i. map_option drop_zero (data i)) j usd) x = js_or (quote_field data j usd) x"
  "quote_field (\<lambda>i. map_option drop_zero (data i)) j eur_24h_change
     = quote_field data j eur_24h_change"
  by (simp_all add: quote_field_def drop_zero_def js_or_def truthy_def split: option.splits)

lemma fetchPrices_drop_zero:
  "fetchPrices (Some (\<lambda>i. map_option drop_zero (data i))) assets = fetchPrices (Some data) assets"
  by (simp add: fetchPrices_def quote_field_drop_zero)

lemma fetchPrices_zero_eur:
  "k < length assets \<Longrightarrow> data (asset_id (assets ! k)) = Some q \<Longrightarrow> eur q = Some 0 \<Longrightarrow>
   priceEur (assets ! k) = Some p \<Longrightarrow> priceEur (fetchPrices (Some data) assets ! k) = Some p"
  by (simp add: fetchPrices_def quote_field_def js_or_def truthy_def)

lemma fetchPrices_zero_usd:
  "k < length assets \<Longrightarrow> data (asset_id (assets ! k)) = Some q \<Longrightarrow> usd q = Some 0 \<Longrightarrow>
   priceUsd (assets ! k) = Some p \<Longrightarrow> priceUsd (fetchPrices (Some data) assets ! k) = Some p"
  by (simp add: fetchPrices_def quote_field_def js_or_def truthy_def)

text \<open>
  Claim C10. In the bulk refresh a price of exactly 0 in the answer is treated as absent
  data, for every asset of the list and for both currencies: the whole result is the one
  the answer without its prices of 0 gives, and an asset whose answer has a price of 0
  keeps the price it had in that currency.
\<close>

theorem fetchPrices_zero_price:
  "fetchPrices (Some data) assets = fetchPrices (Some (\<lambda>i. map_option drop_zero (data i))) assets
   \<and> (\<forall>k < length assets. \<forall>q p.
        data (asset_id (assets ! k)) = Some q \<longrightarrow>
          (eur q = Some 0 \<longrightarrow> priceEur (assets ! k) = Some p \<longrightarrow>
             priceEur (fetchPrices (Some data) assets ! k) = Some p)
        \<and> (usd q = Some 0 \<longrightarrow> priceUsd (assets ! k) = Some p \<longrightarrow>
             priceUsd (fetchPrices (Some data) assets ! k) = Some p))"
proof (intro conjI allI impI)
  show "fetchPrices (Some data) assets
        = fetchPrices (Some (\<lambda>i. map_option drop_zero (data i))) assets"
    by (simp only: fetchPrices_drop_zero)
next
  fix k q p
  assume "k < length assets" "data (asset_id (assets ! k)) = Some q"
    "eur q = Some 0" "priceEur (assets ! k) = Some p"
  then show "priceEur (fetchPrices (Some data) assets ! k) = Some p"
    by (rule fetchPrices_zero_eur)
next
  fix k q p
  assume "k < length assets" "data (asset_id (assets ! k)) = Some q"
    "usd q = Some 0" "priceUsd (assets ! k) = Some p"
  then show "priceUsd (fetchPrices (Some data) assets ! k) = Some p"
    by (rule fetchPrices_zero_usd)
qed

text \<open>
  Two assets with prices 100 and 30; the answer has a dollar price of 0 for the first and a
  euro price of 0 for the second.
\<close>

theorem fetchPrices_zero_price_witness:
  "priceUsd (fetchPrices
       (Some [''btc'' \<mapsto> \<lparr>eur = Some 90, usd = Some 0, eur_24h_change = None\<rparr>,
              ''eth'' \<mapsto> \<lparr>eur = Some 0, usd = Some 35, eur_24h_change = None\<rparr>])
       [sample ''btc'' 1 100 50 80, sample ''eth'' 2 30 50 20] ! 0) = Some 100
   \<and> priceEur (fetchPrices
       (Some [''btc'' \<mapsto> \<lparr>eur = Some 90, usd = Some 0, eur_24h_change = None\<rparr>,
              ''eth'' \<mapsto> \<lparr>eur = Some 0, usd = Some 35, eur_24h_change = None\<rparr>])
       [sample ''btc'' 1 100 50 80, sample ''eth'' 2 30 50 20] ! 1) = Some 30"
proof -
  let ?b = "\<lparr>eur = Some 90, usd = Some 0, eur_24h_change = None\<rparr>"
  let ?e = "\<lparr>eur = Some 0, usd = Some 35, eur_24h_change = None\<rparr>"
  let ?data = "[''btc'' \<mapsto> ?b, ''eth'' \<mapsto> ?e]"
  let ?assets = "[sample ''btc'' 1 100 50 80, sample ''eth'' 2 30 50 20]"
  note inst = fetchPrices_zero_price [of ?data ?assets, THEN conjunct2, rule_format]
  have len: "(0::nat) < length ?assets" "(1::nat) < length ?assets" by simp_all
  have b: "?data (asset_id (?assets ! 0)) = Some ?b" by simp
  have e: "?data (asset_id (?assets ! 1)) = Some ?e" by simp
  have zb: "usd ?b = Some 0" and ze: "eur ?e = Some 0" by simp_all
  have pb: "priceUsd (?assets ! 0) = Some 100" and pe: "priceEur (?assets ! 1) = Some 30"
    by (simp_all add: sample_def)
  have 1: "priceUsd (fetchPrices (Some ?data) ?assets ! 0) = Some 100"
    by (rule inst [OF len(1) b, THEN conjunct2, rule_format, OF zb pb])
  have 2: "priceEur (fetchPrices (Some ?data) ?assets ! 1) = Some 30"
    by (rule inst [OF len(2) e, THEN conjunct1, rule_format, OF ze pe])
  show ?thesis using 1 2 by (rule conjI)
qed

section \<open>The invariants under the operations\<close>

lemma number_read_simps [simp]: "number_read (Some n) = n" "number_read None = 0"
  by (simp_all add: number_read_def)

lemma or_zero_number_read: "or_zero x = number_read x"
  by (cases x) simp_all

subsection \<open>What the updates store\<close>

lemma updateTarget_nth:
  "k < length assets \<Longrightarrow>
   updateTarget parseFloat i inp assets ! k =
     (if asset_id (assets ! k) = i
      then (assets ! k)\<lparr>targetPercent := Some (min 100 (max 0 (number_read (parseFloat inp))))\<rparr>
      else assets ! k)"
  by (simp add: updateTarget_def Let_def or_zero_number_read)

lemma updateHoldings_nth:
  "k < length assets \<Longrightarrow>
   updateHoldings parseFloat i inp assets ! k =
     (if asset_id (assets ! k) = i
      then (assets ! k)\<lparr>holdings := number_read (parseFloat inp)\<rparr>
      else assets ! k)"
  by (simp add: updateHoldings_def or_zero_number_read)

lemma updateAsset_nth:
  "k < length assets \<Longrightarrow>
   updateAsset parseFloat i fld v assets ! k =
     (let n = number_read (case v of None \<Rightarrow> None | Some s \<Rightarrow> parseFloat s)
      in if asset_id (assets ! k) = i
         then (case fld of
                 Category \<Rightarrow> (assets ! k)\<lparr>category := v\<rparr>
               | Holdings \<Rightarrow> (assets ! k)\<lparr>holdings := n\<rparr>
               | BuyPrice \<Rightarrow> (assets ! k)\<lparr>buyPrice := Some n\<rparr>
               | TargetPercent \<Rightarrow> (assets ! k)\<lparr>targetPercent := Some n\<rparr>)
         else assets ! k)"
  by (simp add: updateAsset_def Let_def or_zero_number_read)

lemma update_lengths:
  "length (updateTarget parseFloat i inp assets) = length assets"
  "length (updateHoldings parseFloat i inp assets) = length assets"
  "length (updateAsset parseFloat i fld v assets) = length assets"
  by (simp_all add: updateTarget_def updateHoldings_def updateAsset_def Let_def)

lemma failed_request:
  "fetchPrices None assets = assets"
  "addAsset_prices cid None assets = assets"
  "fetchPrices_App None assets = assets"
  "addAsset_prices_App cid None assets = assets"
  by (simp_all add: fetchPrices_def addAsset_prices_def fetchPrices_App_def addAsset_prices_App_def)

lemma negative_holdings_stored:
  assumes "i \<in> asset_id ` set assets" and "number_read (parseFloat inp) < 0"
  shows "\<not> list_all asset_ok (updateHoldings parseFloat i inp assets)"
proof -
  from assms(1) obtain a where a: "a \<in> set assets" "asset_id a = i" by auto
  then have "a\<lparr>holdings := number_read (parseFloat inp)\<rparr>
      \<in> set (updateHoldings parseFloat i inp assets)"
    by (auto simp: updateHoldings_def or_zero_number_read image_iff intro!: bexI [of _ a])
  moreover have "\<not> asset_ok (a\<lparr>holdings := number_read (parseFloat inp)\<rparr>)"
    using assms(2) by (simp add: asset_ok_def)
  ultimately show ?thesis by (auto simp: list_all_iff)
qed

subsection \<open>Preservation\<close>

lemma asset_ok_addAsset:
  "list_all asset_ok assets \<Longrightarrow> list_all asset_ok (addAsset toUpperCase c assets)"
  by (simp add: addAsset_def asset_ok_def)

lemma asset_ok_addAsset_App:
  "list_all asset_ok assets \<Longrightarrow> list_all asset_ok (addAsset_App toUpperCase c assets)"
  by (simp add: addAsset_App_def asset_ok_def)

lemma asset_ok_removeAsset: "list_all asset_ok assets \<Longrightarrow> list_all asset_ok (removeAsset i assets)"
  by (simp add: removeAsset_def list_all_iff)

lemma asset_ok_updateTarget:
  "list_all asset_ok assets \<Longrightarrow> list_all asset_ok (updateTarget parseFloat i v assets)"
  by (auto simp: updateTarget_def list_all_iff asset_ok_def Let_def)

lemma asset_ok_updateHoldings:
  "list_all asset_ok assets \<Longrightarrow> 0 \<le> number_read (parseFloat v) \<Longrightarrow>
   list_all asset_ok (updateHoldings parseFloat i v assets)"
  by (auto simp: updateHoldings_def list_all_iff asset_ok_def or_zero_number_read)

lemma asset_ok_updateAsset:
  "list_all asset_ok assets \<Longrightarrow>
   input_ok fld (number_read (case v of None \<Rightarrow> None | Some s \<Rightarrow> parseFloat s)) \<Longrightarrow>
   list_all asset_ok (updateAsset parseFloat i fld v assets)"
  by (cases fld)
    (auto simp: updateAsset_def list_all_iff asset_ok_def input_ok_def Let_def or_zero_number_read)

lemma or_zero_js_or_nonneg:
  "0 \<le> or_zero x \<Longrightarrow> 0 \<le> or_zero y \<Longrightarrow> 0 \<le> or_zero (js_or x y)"
  by (simp add: js_or_def)

lemma quote_field_ok:
  "response_ok data \<Longrightarrow>
   0 \<le> or_zero (quote_field data i eur) \<and> 0 \<le> or_zero (quote_field data i usd)"
  by (auto simp: response_ok_def quote_field_def split: option.splits)

lemma asset_ok_fetchPrices:
  "list_all asset_ok assets \<Longrightarrow> response_ok data \<Longrightarrow>
   list_all asset_ok (fetchPrices (Some data) assets)"
  by (auto simp: fetchPrices_def list_all_iff asset_ok_def or_zero_js_or_nonneg quote_field_ok)

lemma asset_ok_addAsset_prices:
  "list_all asset_ok assets \<Longrightarrow> response_ok data \<Longrightarrow>
   list_all asset_ok (addAsset_prices cid (Some data) assets)"
  by (auto simp: addAsset_prices_def list_all_iff asset_ok_def quote_field_ok)

lemma asset_ok_fetchPrices_App:
  "list_all asset_ok assets \<Longrightarrow> response_ok data \<Longrightarrow>
   list_all asset_ok (fetchPrices_App (Some data) assets)"
  by (auto simp: fetchPrices_App_def list_all_iff asset_ok_def or_zero_js_or_nonneg quote_field_ok)

lemma asset_ok_addAsset_prices_App:
  "list_all asset_ok assets \<Longrightarrow> response_ok data \<Longrightarrow>
   list_all asset_ok (addAsset_prices_App cid (Some data) assets)"
  by (auto simp: addAsset_prices_App_def list_all_iff asset_ok_def quote_field_ok)

subsection \<open>The operations and the invariants\<close>

text \<open>
  Claim C5, as amended. Client input is defaulted on write and clamped by
  \<^verbatim>\<open>updateTarget\<close> only. For every list and every \<^verbatim>\<open>parseFloat\<close>:
  \<^verbatim>\<open>updateTarget\<close> stores the number read, clamped to [0, 100], as the target of the
  assets with the given id; \<^verbatim>\<open>updateHoldings\<close> and \<^verbatim>\<open>updateAsset\<close> store the number
  read as it is in the field they update (or the value given, for the category); the number
  read is 0 when the input is not a number; each of the three leaves every other asset and
  every other field as it was; holdings read as negative break the invariants of an asset
  that is in the list; a failed price request changes nothing. On a list whose assets
  satisfy the invariants, \<^verbatim>\<open>addAsset\<close>, \<^verbatim>\<open>removeAsset\<close> and \<^verbatim>\<open>updateTarget\<close> give a list
  whose assets satisfy them, \<^verbatim>\<open>updateHoldings\<close> and \<^verbatim>\<open>updateAsset\<close> do when the number
  read is not negative (and at most 100 for a target), and the price merges do when no
  price of the answer is negative.
\<close>

theorem updates_store_and_preserve:
  "(length (updateTarget parseFloat i inp assets) = length assets
    \<and> (\<forall>k < length assets.
         updateTarget parseFloat i inp assets ! k =
           (if asset_id (assets ! k) = i
            then (assets ! k)\<lparr>targetPercent :=
                   Some (min 100 (max 0 (number_read (parseFloat inp))))\<rparr>
            else assets ! k)))
   \<and> (length (updateHoldings parseFloat i inp assets) = length assets
    \<and> (\<forall>k < length assets.
         updateHoldings parseFloat i inp assets ! k =
           (if asset_id (assets ! k) = i
            then (assets ! k)\<lparr>holdings := number_read (parseFloat inp)\<rparr>
            else assets ! k)))
   \<and> (length (updateAsset parseFloat i fld v assets) = length assets
    \<and> (\<forall>k < length assets.
         updateAsset parseFloat i fld v assets ! k =
           (let n = number_read (case v of None \<Rightarrow> None | Some s \<Rightarrow> parseFloat s)
            in if asset_id (assets ! k) = i
               then (case fld of
                       Category \<Rightarrow> (assets ! k)\<lparr>category := v\<rparr>
                     | Holdings \<Rightarrow> (assets ! k)\<lparr>holdings := n\<rparr>
                     | BuyPrice \<Rightarrow> (assets ! k)\<lparr>buyPrice := Some n\<rparr>
                     | TargetPercent \<Rightarrow> (assets ! k)\<lparr>targetPercent := Some n\<rparr>)
               else assets ! k)))
   \<and> (parseFloat inp = None \<longrightarrow> number_read (parseFloat inp) = 0)
   \<and> (i \<in> asset_id ` set assets \<and> number_read (parseFloat inp) < 0 \<longrightarrow>
        \<not> list_all asset_ok (updateHoldings parseFloat i inp assets))
   \<and> fetchPrices None assets = assets
   \<and> addAsset_prices cid None assets = assets
   \<and> fetchPrices_App None assets = assets
   \<and> addAsset_prices_App cid None assets = assets
   \<and> (list_all asset_ok assets \<longrightarrow>
        list_all asset_ok (addAsset toUpperCase c assets)
      \<and> list_all asset_ok (addAsset_App toUpperCase c assets)
      \<and> list_all asset_ok (removeAsset i assets)
      \<and> list_all asset_ok (updateTarget parseFloat i inp assets)
      \<and> (0 \<le> number_read (parseFloat inp) \<longrightarrow>
           list_all asset_ok (updateHoldings parseFloat i inp assets))
      \<and> (input_ok fld (number_read (case v of None \<Rightarrow> None | Some s \<Rightarrow> parseFloat s)) \<longrightarrow>
           list_all asset_ok (updateAsset parseFloat i fld v assets))
      \<and> (response_ok data \<longrightarrow>
           list_all asset_ok (fetchPrices (Some data) assets)
         \<and> list_all asset_ok (addAsset_prices cid (Some data) assets)
         \<and> list_all asset_ok (fetchPrices_App (Some data) assets)
         \<and> list_all asset_ok (addAsset_prices_App cid (Some data) assets)))"
proof (intro conjI allI impI)
  show "length (updateTarget parseFloat i inp assets) = length assets"
    and "length (updateHoldings parseFloat i inp assets) = length assets"
    and "length (updateAsset parseFloat i fld v assets) = length assets"
    by (rule update_lengths)+
  show "fetchPrices None assets = assets"
    and "addAsset_prices cid None assets = assets"
    and "fetchPrices_App None assets = assets"
    and "addAsset_prices_App cid None assets = assets"
    by (rule failed_request)+
  show "number_read (parseFloat inp) = 0" if "parseFloat inp = None"
    by (simp add: that)
  show "\<not> list_all asset_ok (updateHoldings parseFloat i inp assets)"
    if h: "i \<in> asset_id ` set assets \<and> number_read (parseFloat inp) < 0"
    by (rule negative_holdings_stored) (simp_all add: h)
next
  fix k assume k: "k < length assets"
  show "updateTarget parseFloat i inp assets ! k =
      (if asset_id (assets ! k) = i
       then (assets ! k)\<lparr>targetPercent := Some (min 100 (max 0 (number_read (parseFloat inp))))\<rparr>
       else assets ! k)"
    by (rule updateTarget_nth [OF k])
  show "updateHoldings parseFloat i inp assets ! k =
      (if asset_id (assets ! k) = i
       then (assets ! k)\<lparr>holdings := number_read (parseFloat inp)\<rparr>
       else assets ! k)"
    by (rule updateHoldings_nth [OF k])
  show "updateAsset parseFloat i fld v assets ! k =
      (let n = number_read (case v of None \<Rightarrow> None | Some s \<Rightarrow> parseFloat s)
       in if asset_id (assets ! k) = i
          then (case fld of
                  Category \<Rightarrow> (assets ! k)\<lparr>category := v\<rparr>
                | Holdings \<Rightarrow> (assets ! k)\<lparr>holdings := n\<rparr>
                | BuyPrice \<Rightarrow> (assets ! k)\<lparr>buyPrice := Some n\<rparr>
                | TargetPercent \<Rightarrow> (assets ! k)\<lparr>targetPercent := Some n\<rparr>)
          else assets ! k)"
    by (rule updateAsset_nth [OF k])
next
  assume ok: "list_all asset_ok assets"
  show "list_all asset_ok (addAsset toUpperCase c assets)" by (rule asset_ok_addAsset [OF ok])
  show "list_all asset_ok (addAsset_App toUpperCase c assets)"
    by (rule asset_ok_addAsset_App [OF ok])
  show "list_all asset_ok (removeAsset i assets)" by (rule asset_ok_removeAsset [OF ok])
  show "list_all asset_ok (updateTarget parseFloat i inp assets)"
    by (rule asset_ok_updateTarget [OF ok])
  show "list_all asset_ok (updateHoldings parseFloat i inp assets)"
    if "0 \<le> number_read (parseFloat inp)"
    by (rule asset_ok_updateHoldings) (fact ok, fact that)
  show "list_all asset_ok (updateAsset parseFloat i fld v assets)"
    if "input_ok fld (number_read (case v of None \<Rightarrow> None | Some s \<Rightarrow> parseFloat s))"
    by (rule asset_ok_updateAsset) (fact ok, fact that)
  show "list_all asset_ok (fetchPrices (Some data) assets)" if "response_ok data"
    by (rule asset_ok_fetchPrices [OF ok that])
  show "list_all asset_ok (addAsset_prices cid (Some data) assets)" if "response_ok data"
    by (rule asset_ok_addAsset_prices [OF ok that])
  show "list_all asset_ok (fetchPrices_App (Some data) assets)" if "response_ok data"
    by (rule asset_ok_fetchPrices_App [OF ok that])
  show "list_all asset_ok (addAsset_prices_App cid (Some data) assets)" if "response_ok data"
    by (rule asset_ok_addAsset_prices_App [OF ok that])
qed

text \<open>
  On the list \<^verbatim>\<open>addAsset\<close> of \<^verbatim>\<open>src/App.jsx\<close> builds from no assets: a target of 150
  is stored as 100 and holdings of 7 as 7, and the invariants hold afterwards. On the list
  the later \<^verbatim>\<open>addAsset\<close> builds: an unreadable cost basis is stored as 0, and an answer
  with prices 90 and 99 keeps the invariants.
\<close>

theorem updates_store_and_preserve_witness:
  "list_all asset_ok (addAsset_App toUpperCase_ascii bitcoin [])
   \<and> (0::nat) < length (addAsset_App toUpperCase_ascii bitcoin [])
   \<and> targetPercent (updateTarget parseFloat_integer ''bitcoin'' ''150''
        (addAsset_App toUpperCase_ascii bitcoin []) ! 0) = Some 100
   \<and> list_all asset_ok (updateTarget parseFloat_integer ''bitcoin'' ''150''
        (addAsset_App toUpperCase_ascii bitcoin []))
   \<and> 0 \<le> number_read (parseFloat_integer ''7'')
   \<and> holdings (updateHoldings parseFloat_integer ''bitcoin'' ''7''
        (addAsset_App toUpperCase_ascii bitcoin []) ! 0) = 7
   \<and> list_all asset_ok (updateHoldings parseFloat_integer ''bitcoin'' ''7''
        (addAsset_App toUpperCase_ascii bitcoin []))
   \<and> list_all asset_ok (addAsset toUpperCase_ascii bitcoin [])
   \<and> parseFloat_integer ''x'' = None
   \<and> buyPrice (updateAsset parseFloat_integer ''bitcoin'' BuyPrice (Some ''x'')
        (addAsset toUpperCase_ascii bitcoin []) ! 0) = Some 0
   \<and> list_all asset_ok (updateAsset parseFloat_integer ''bitcoin'' BuyPrice (Some ''x'')
        (addAsset toUpperCase_ascii bitcoin []))
   \<and> response_ok [''bitcoin'' \<mapsto> \<lparr>eur = Some 90, usd = Some 99, eur_24h_change = Some (-1)\<rparr>]
   \<and> list_all asset_ok
        (fetchPrices (Some [''bitcoin'' \<mapsto> \<lparr>eur = Some 90, usd = Some 99, eur_24h_change = Some (-1)\<rparr>])
           (addAsset toUpperCase_ascii bitcoin []))"
proof -
  let ?old = "addAsset_App toUpperCase_ascii bitcoin []"
  let ?new = "addAsset toUpperCase_ascii bitcoin []"
  let ?data = "[''bitcoin'' \<mapsto> \<lparr>eur = Some 90, usd = Some 99, eur_24h_change = Some (-1)\<rparr>]"
  have ok_old: "list_all asset_ok ?old"
    by (simp add: addAsset_App_def asset_ok_def)
  have ok_new: "list_all asset_ok ?new"
    by (simp add: addAsset_def asset_ok_def)
  have len_old: "(0::nat) < length ?old" and id_old: "asset_id (?old ! 0) = ''bitcoin''"
    by (simp_all add: addAsset_App_def bitcoin_def)
  have len_new: "(0::nat) < length ?new" and id_new: "asset_id (?new ! 0) = ''bitcoin''"
    by (simp_all add: addAsset_def bitcoin_def)
  have p150: "parseFloat_integer ''150'' = Some 150" and p7: "parseFloat_integer ''7'' = Some 7"
    and px: "parseFloat_integer ''x'' = None"
    by (simp_all add: parseFloat_integer_def digit_value_def)
  have in7: "0 \<le> number_read (parseFloat_integer ''7'')" by (simp add: p7)
  have inx: "input_ok BuyPrice
      (number_read (case Some ''x'' of None \<Rightarrow> None | Some s \<Rightarrow> parseFloat_integer s))"
    by (simp add: px input_ok_def)
  have resp: "response_ok ?data" by (simp add: response_ok_def)
  note t = updates_store_and_preserve
    [where assets = ?old and parseFloat = parseFloat_integer and i = "''bitcoin''"
       and inp = "''150''"]
  note h = updates_store_and_preserve
    [where assets = ?old and parseFloat = parseFloat_integer and i = "''bitcoin''"
       and inp = "''7''"]
  note u = updates_store_and_preserve
    [where assets = ?new and parseFloat = parseFloat_integer and i = "''bitcoin''"
       and fld = BuyPrice and v = "Some ''x''" and data = ?data]
  have "updateTarget parseFloat_integer ''bitcoin'' ''150'' ?old ! 0
      = (?old ! 0)\<lparr>targetPercent := Some (min 100 (max 0 (number_read (parseFloat_integer ''150''))))\<rparr>"
    using t len_old id_old by simp
  then have a: "targetPercent (updateTarget parseFloat_integer ''bitcoin'' ''150'' ?old ! 0) = Some 100"
    by (simp add: p150)
  have b: "list_all asset_ok (updateTarget parseFloat_integer ''bitcoin'' ''150'' ?old)"
    using t ok_old by blast
  have "updateHoldings parseFloat_integer ''bitcoin'' ''7'' ?old ! 0
      = (?old ! 0)\<lparr>holdings := number_read (parseFloat_integer ''7'')\<rparr>"
    using h len_old id_old by simp
  then have c: "holdings (updateHoldings parseFloat_integer ''bitcoin'' ''7'' ?old ! 0) = 7"
    by (simp add: p7)
  have d: "list_all asset_ok (updateHoldings parseFloat_integer ''bitcoin'' ''7'' ?old)"
    using h ok_old in7 by blast
  have "updateAsset parseFloat_integer ''bitcoin'' BuyPrice (Some ''x'') ?new ! 0
      = (?new ! 0)\<lparr>buyPrice := Some (number_read (parseFloat_integer ''x''))\<rparr>"
    using u len_new id_new by (simp add: Let_def)
  then have e: "buyPrice (updateAsset parseFloat_integer ''bitcoin'' BuyPrice (Some ''x'') ?new ! 0)
      = Some 0"
    by (simp add: px)
  have f: "list_all asset_ok (updateAsset parseFloat_integer ''bitcoin'' BuyPrice (Some ''x'') ?new)"
    using u ok_new inx by blast
  have g: "list_all asset_ok (fetchPrices (Some ?data) ?new)"
    using u ok_new resp by blast
  show ?thesis
    by (intro conjI)
      (fact ok_old, fact len_old, fact a, fact b, fact in7, fact c, fact d, fact ok_new, fact px,
        fact e, fact f, fact resp, fact g)
qed

text \<open>
  Claim C5, as stated, fails: holdings of -5 typed into the holdings field are stored as
  they are, by \<^verbatim>\<open>updateAsset\<close> and by \<^verbatim>\<open>updateHoldings\<close>, on a list whose asset
  satisfied the invariants.
\<close>

theorem negative_holdings_counterexample:
  "list_all asset_ok [sample ''btc'' 1 100 50 80]
   \<and> map holdings
        (updateAsset parseFloat_integer ''btc'' Holdings (Some ''-5'') [sample ''btc'' 1 100 50 80])
      = [-5]
   \<and> \<not> list_all asset_ok
        (updateAsset parseFloat_integer ''btc'' Holdings (Some ''-5'') [sample ''btc'' 1 100 50 80])
   \<and> map holdings
        (updateHoldings parseFloat_integer ''btc'' ''-5'' [sample ''btc'' 1 100 50 80])
      = [-5]
   \<and> \<not> list_all asset_ok
        (updateHoldings parseFloat_integer ''btc'' ''-5'' [sample ''btc'' 1 100 50 80])"
  by (simp add: asset_ok_def sample_def updateAsset_def updateHoldings_def
      parseFloat_integer_def digit_value_def)

end
